theory Spec2Isabelle
  imports Main
begin

section \<open>Values shared by the handlers and the proxy backend\<close>

text \<open>
  A Go \<open>byte\<close> is an 8-bit value and a Go \<open>string\<close> is a sequence of bytes, so both
  \<open>[]byte\<close> and \<open>string\<close> are lists of \<^typ>\<open>char\<close> (the 8-bit character type of HOL).
  Where the program can tell a nil slice from an empty one (\<open>servers == nil\<close>, a returned
  \<open>nil\<close>), the slice is an \<open>option\<close> with \<open>None\<close> for nil.
\<close>

type_synonym byte = char

definition bytes_of :: "byte list option \<Rightarrow> byte list" where
  "bytes_of b = (case b of None \<Rightarrow> [] | Some bs \<Rightarrow> bs)"

text \<open>
  Go's \<open>error\<close> values: those made by \<open>errors.New\<close> and \<open>fmt.Errorf\<close> carry their
  message; \<open>base64.CorruptInputError\<close> carries the offending input offset. A nil error is
  \<open>None\<close> of \<open>error option\<close>.
\<close>

datatype error = errorString string | CorruptInputError nat

function itoa :: "nat \<Rightarrow> string" where
  "itoa n = (if n < 10 then [char_of (48 + n)] else itoa (n div 10) @ [char_of (48 + n mod 10)])"
  by pat_completeness auto
termination
  by (relation "measure id") auto

fun Error :: "error \<Rightarrow> string" where
  "Error (errorString s) = s"
| "Error (CorruptInputError n) = ''illegal base64 data at input byte '' @ itoa n"

section \<open>The library operations the handlers call\<close>

subsection \<open>\<open>encoding/base64\<close>: \<open>RawURLEncoding\<close>\<close>

text \<open>
  The URL-safe alphabet, without padding. The decoder walks the input with its offset
  \<open>si\<close>, collects the 6-bit values of a quantum in \<open>dbuf\<close>, skips carriage returns and
  line feeds, rejects every other byte outside the alphabet at its offset, and rejects a
  final quantum of a single character. A final quantum of two or three characters gives
  one or two bytes; its unused low bits are not checked (the encoding is not strict).
\<close>

definition encodeURL :: string where
  "encodeURL = ''ABCDEFGHIJKLMNOPQRSTUVWXYZabcdefghijklmnopqrstuvwxyz0123456789-_''"

fun indexFrom :: "nat \<Rightarrow> char list \<Rightarrow> char \<Rightarrow> nat option" where
  "indexFrom i [] c = None"
| "indexFrom i (x # xs) c = (if x = c then Some i else indexFrom (i + 1) xs c)"

definition decodeMap :: "char \<Rightarrow> nat option" where
  "decodeMap c = indexFrom 0 encodeURL c"

fun assemble :: "nat list \<Rightarrow> byte list" where
  "assemble [a, b, c, d] =
     (let val = a * 262144 + b * 4096 + c * 64 + d
      in [char_of (val div 65536), char_of (val div 256), char_of val])"
| "assemble [a, b, c] =
     (let val = a * 262144 + b * 4096 + c * 64
      in [char_of (val div 65536), char_of (val div 256)])"
| "assemble [a, b] =
     (let val = a * 262144 + b * 4096
      in [char_of (val div 65536)])"
| "assemble dbuf = []"

fun decode :: "nat \<Rightarrow> nat list \<Rightarrow> char list \<Rightarrow> error + byte list" where
  "decode si dbuf [] =
     (if length dbuf = 1 then Inl (CorruptInputError (si - 1)) else Inr (assemble dbuf))"
| "decode si dbuf (c # src) =
     (case decodeMap c of
        Some out \<Rightarrow>
          (if length dbuf = 3
           then (case decode (si + 1) [] src of
                   Inl err \<Rightarrow> Inl err
                 | Inr dst \<Rightarrow> Inr (assemble (dbuf @ [out]) @ dst))
           else decode (si + 1) (dbuf @ [out]) src)
      | None \<Rightarrow>
          (if c = CHR 0x0A \<or> c = CHR 0x0D then decode (si + 1) dbuf src
           else Inl (CorruptInputError si)))"

definition DecodeString :: "string \<Rightarrow> error + byte list" where
  "DecodeString s = decode 0 [] s"

fun EncodeToString :: "byte list \<Rightarrow> string" where
  "EncodeToString [] = []"
| "EncodeToString [a] =
     (let val = of_char a * 65536
      in [encodeURL ! (val div 262144 mod 64), encodeURL ! (val div 4096 mod 64)])"
| "EncodeToString [a, b] =
     (let val = of_char a * 65536 + of_char b * 256
      in [encodeURL ! (val div 262144 mod 64), encodeURL ! (val div 4096 mod 64),
          encodeURL ! (val div 64 mod 64)])"
| "EncodeToString (a # b # c # src) =
     (let val = of_char a * 65536 + of_char b * 256 + of_char c
      in [encodeURL ! (val div 262144 mod 64), encodeURL ! (val div 4096 mod 64),
          encodeURL ! (val div 64 mod 64), encodeURL ! (val mod 64)] @ EncodeToString src)"

subsection \<open>\<open>net/http\<close>: status codes, headers, the response writer\<close>

definition StatusOK :: int where [simp]: "StatusOK = 200"
definition StatusBadRequest :: int where [simp]: "StatusBadRequest = 400"
definition StatusMethodNotAllowed :: int where [simp]: "StatusMethodNotAllowed = 405"
definition StatusRequestEntityTooLarge :: int where [simp]: "StatusRequestEntityTooLarge = 413"
definition StatusUnsupportedMediaType :: int where [simp]: "StatusUnsupportedMediaType = 415"
definition StatusUnprocessableEntity :: int where [simp]: "StatusUnprocessableEntity = 422"
definition StatusInternalServerError :: int where [simp]: "StatusInternalServerError = 500"

definition MethodGet :: string where [simp]: "MethodGet = ''GET''"
definition MethodPost :: string where [simp]: "MethodPost = ''POST''"

definition statusText :: "(int \<times> string) list" where
  "statusText =
    [(100, ''Continue''), (101, ''Switching Protocols''), (102, ''Processing''),
     (200, ''OK''), (201, ''Created''), (202, ''Accepted''),
     (203, ''Non-Authoritative Information''), (204, ''No Content''),
     (205, ''Reset Content''), (206, ''Partial Content''), (207, ''Multi-Status''),
     (208, ''Already Reported''), (226, ''IM Used''),
     (300, ''Multiple Choices''), (301, ''Moved Permanently''), (302, ''Found''),
     (303, ''See Other''), (304, ''Not Modified''), (305, ''Use Proxy''),
     (307, ''Temporary Redirect''), (308, ''Permanent Redirect''),
     (400, ''Bad Request''), (401, ''Unauthorized''), (402, ''Payment Required''),
     (403, ''Forbidden''), (404, ''Not Found''), (405, ''Method Not Allowed''),
     (406, ''Not Acceptable''), (407, ''Proxy Authentication Required''),
     (408, ''Request Timeout''), (409, ''Conflict''), (410, ''Gone''),
     (411, ''Length Required''), (412, ''Precondition Failed''),
     (413, ''Request Entity Too Large''), (414, ''Request URI Too Long''),
     (415, ''Unsupported Media Type''), (416, ''Requested Range Not Satisfiable''),
     (417, ''Expectation Failed''), (418, ''I'm a teapot''),
     (422, ''Unprocessable Entity''), (423, ''Locked''), (424, ''Failed Dependency''),
     (426, ''Upgrade Required''), (428, ''Precondition Required''),
     (429, ''Too Many Requests''), (431, ''Request Header Fields Too Large''),
     (451, ''Unavailable For Legal Reasons''),
     (500, ''Internal Server Error''), (501, ''Not Implemented''), (502, ''Bad Gateway''),
     (503, ''Service Unavailable''), (504, ''Gateway Timeout''),
     (505, ''HTTP Version Not Supported''), (506, ''Variant Also Negotiates''),
     (507, ''Insufficient Storage''), (508, ''Loop Detected''), (510, ''Not Extended''),
     (511, ''Network Authentication Required'')]"

definition http_StatusText :: "int \<Rightarrow> string" where
  "http_StatusText code = (case map_of statusText code of None \<Rightarrow> [] | Some s \<Rightarrow> s)"

text \<open>
  An \<open>http.Header\<close> maps a (canonical) field name to its values. \<open>Set\<close> replaces the
  values of a field by one value, \<open>Get\<close> returns the first value or the empty string.
\<close>

type_synonym Header = "string \<rightharpoonup> string list"

definition Header_Set :: "Header \<Rightarrow> string \<Rightarrow> string \<Rightarrow> Header" where
  "Header_Set h key val = h(key \<mapsto> [val])"

definition Header_Get :: "Header \<Rightarrow> string \<Rightarrow> string" where
  "Header_Get h key = (case h key of None \<Rightarrow> [] | Some [] \<Rightarrow> [] | Some (v # vs) \<Rightarrow> v)"

text \<open>
  The response sink, after \<open>httptest.ResponseRecorder\<close>: the header map the handler
  mutates, whether the status line has gone out, the status code, the headers as they
  were when the status line went out (\<open>snapHeader\<close>: later changes of the map do not
  reach the client), and the body written so far. \<open>WriteHeader\<close> takes effect once;
  \<open>Write\<close> sends status 200 first when no status has been sent. The handlers set a
  \<open>Content-Type\<close> before every write, so the sniffing of a missing one never applies.
\<close>

record ResponseWriter =
  HeaderMap :: Header
  wroteHeader :: bool
  Code :: int
  snapHeader :: Header
  Body :: "byte list"

definition NewRecorder :: ResponseWriter where
  "NewRecorder = \<lparr>HeaderMap = Map.empty, wroteHeader = False, Code = 200,
                  snapHeader = Map.empty, Body = []\<rparr>"

definition WriteHeader :: "ResponseWriter \<Rightarrow> int \<Rightarrow> ResponseWriter" where
  "WriteHeader w code =
     (if wroteHeader w then w
      else w\<lparr>wroteHeader := True, Code := code, snapHeader := HeaderMap w\<rparr>)"

definition Write :: "ResponseWriter \<Rightarrow> byte list \<Rightarrow> ResponseWriter" where
  "Write w buf =
     (let w' = (if wroteHeader w then w else WriteHeader w 200)
      in w'\<lparr>Body := Body w' @ buf\<rparr>)"

definition http_Error :: "ResponseWriter \<Rightarrow> string \<Rightarrow> int \<Rightarrow> ResponseWriter" where
  "http_Error w err code =
     (let w1 = w\<lparr>HeaderMap := Header_Set (HeaderMap w) ''Content-Type'' ''text/plain; charset=utf-8''\<rparr>;
          w2 = w1\<lparr>HeaderMap := Header_Set (HeaderMap w1) ''X-Content-Type-Options'' ''nosniff''\<rparr>;
          w3 = WriteHeader w2 code
      in Write w3 (err @ [CHR 0x0A]))"

subsection \<open>The request\<close>

text \<open>
  A request body is a stream: the bytes it delivers, then end of file (\<open>None\<close>) or a
  read error. \<open>http.MaxBytesReader\<close> lets at most \<open>n\<close> bytes through and fails with its
  own error when the stream holds more; \<open>ioutil.ReadAll\<close> reads to the end and returns
  what it read with the error that stopped it, if any.
\<close>

datatype Reader = Reader (data: "byte list") (fail: "error option")

definition http_MaxBytesReader :: "Reader \<Rightarrow> nat \<Rightarrow> Reader" where
  "http_MaxBytesReader r n =
     (if n < length (data r)
      then Reader (take n (data r)) (Some (errorString ''http: request body too large''))
      else r)"

definition ioutil_ReadAll :: "Reader \<Rightarrow> byte list \<times> error option" where
  "ioutil_ReadAll r = (data r, fail r)"

text \<open>
  Of an \<open>http.Request\<close> the handlers read the method, the query of the URL, the header,
  the body and the remote address. The query is kept as the key/value pairs of the query
  string in their order; \<open>URL.Query()\<close> groups them into \<open>url.Values\<close>, where a key is
  present exactly when some pair carries it.
\<close>

record http_Request =
  Method :: string
  URL :: "(string \<times> string) list"
  Header :: Header
  ReqBody :: Reader
  RemoteAddr :: string

definition param_values :: "(string \<times> string) list \<Rightarrow> string \<Rightarrow> string list" where
  "param_values u key = map snd (filter (\<lambda>p. fst p = key) u)"

definition URL_Query :: "(string \<times> string) list \<Rightarrow> string \<rightharpoonup> string list" where
  "URL_Query u key = (let vs = param_values u key in if vs = [] then None else Some vs)"

section \<open>The request handlers\<close>

definition mime :: string where
  "mime = ''application/dns-udpwireformat''"

text \<open>
  \<open>Database\<close> is the interface of the backends: \<open>Query\<close> takes the wire-format query and
  returns the reply bytes, an HTTP status and an error.
\<close>

type_synonym Database = "byte list \<Rightarrow> byte list option \<times> int \<times> error option"

record Request =
  W :: ResponseWriter
  R :: http_Request
  DB :: Database

definition GetRequest_Handle :: "Request \<Rightarrow> ResponseWriter \<times> error option" where
  "GetRequest_Handle req =
     (let w = (W req)\<lparr>HeaderMap := Header_Set (HeaderMap (W req)) ''Content-Type'' mime\<rparr>
      in case URL_Query (URL (R req)) ''dns'' of
           Some dns \<Rightarrow>
             if length dns \<noteq> 1
             then (http_Error w (http_StatusText StatusUnprocessableEntity) StatusUnprocessableEntity,
                   Some (errorString (MethodGet @ '': only 1 'dns' parameter is allowed'')))
             else if length (dns ! 0) = 0
             then (http_Error w (http_StatusText StatusBadRequest) StatusBadRequest,
                   Some (errorString (MethodGet @ '': 'dns' parameter is empty'')))
             else (case DecodeString (dns ! 0) of
                     Inl err \<Rightarrow>
                       (http_Error w (http_StatusText StatusBadRequest) StatusBadRequest, Some err)
                   | Inr qdata \<Rightarrow>
                       (case DB req qdata of
                          (rdata, httpStatus, Some err) \<Rightarrow>
                            (http_Error w (http_StatusText httpStatus) httpStatus, Some err)
                        | (rdata, httpStatus, None) \<Rightarrow> (Write w (bytes_of rdata), None)))
         | None \<Rightarrow>
             (http_Error w (http_StatusText StatusBadRequest) StatusBadRequest,
              Some (errorString (MethodGet @ '': no 'dns' parameter in request''))))"

definition PostRequest_Handle :: "Request \<Rightarrow> ResponseWriter \<times> error option" where
  "PostRequest_Handle req =
     (let w = (W req)\<lparr>HeaderMap := Header_Set (HeaderMap (W req)) ''Content-Type'' mime\<rparr>
      in if URL_Query (URL (R req)) ''dns'' \<noteq> None
         then (http_Error w (http_StatusText StatusBadRequest) StatusBadRequest,
               Some (errorString (MethodPost @ '': 'dns' parameter not allowed'')))
         else if Header_Get (Header (R req)) ''Content-Type'' \<noteq> mime
         then (http_Error w (http_StatusText StatusUnsupportedMediaType) StatusUnsupportedMediaType,
               Some (errorString (MethodPost @ '': Content-Type must be '' @ mime)))
         else (case ioutil_ReadAll (http_MaxBytesReader (ReqBody (R req)) 8192) of
                 (body, Some err) \<Rightarrow>
                   if Error err = ''http: request body too large''
                   then (http_Error w (http_StatusText StatusRequestEntityTooLarge)
                           StatusRequestEntityTooLarge, Some err)
                   else (http_Error w (http_StatusText StatusInternalServerError)
                           StatusInternalServerError, Some err)
               | (body, None) \<Rightarrow>
                   if length body = 0
                   then (http_Error w (http_StatusText StatusBadRequest) StatusBadRequest,
                         Some (errorString (MethodPost @ '': empty body in request'')))
                   else (case DB req body of
                           (rdata, httpStatus, Some err) \<Rightarrow>
                             (http_Error w (http_StatusText httpStatus) httpStatus, Some err)
                         | (rdata, httpStatus, None) \<Rightarrow> (Write w (bytes_of rdata), None))))"

text \<open>
  A \<open>log.Logger\<close> is the list of the lines it has printed; a nil logger is \<open>None\<close>.
  \<open>HandleRequest\<close> gives the handler, a function of the response writer and the request;
  the model returns the writer after the handler has run and the logger after it.
\<close>

type_synonym Logger = "string list"

definition Printf :: "Logger \<Rightarrow> string \<Rightarrow> Logger" where
  "Printf l s = l @ [s]"

definition HandleRequest ::
  "Database \<Rightarrow> Logger option \<Rightarrow> ResponseWriter \<Rightarrow> http_Request \<Rightarrow> ResponseWriter \<times> Logger option"
where
  "HandleRequest database log w r =
     (let (w', err) =
        (if Method r = MethodGet
         then GetRequest_Handle \<lparr>W = w, R = r, DB = database\<rparr>
         else if Method r = MethodPost
         then PostRequest_Handle \<lparr>W = w, R = r, DB = database\<rparr>
         else (http_Error w (http_StatusText StatusMethodNotAllowed) StatusMethodNotAllowed,
               Some (errorString (''HandleRequest: only '' @ MethodGet @ '' and '' @ MethodPost
                                   @ '' methods are supported''))))
      in (w',
          case log of
            None \<Rightarrow> None
          | Some l \<Rightarrow>
              (case err of
                 Some e \<Rightarrow> Some (Printf l (RemoteAddr r @ '' | '' @ Error e))
               | None \<Rightarrow>
                   Some (Printf l (RemoteAddr r @ '' | successful '' @ Method r @ '' request'')))))"

section \<open>The proxy backend\<close>

text \<open>
  The DNS codec (\<open>Msg.Unpack\<close>, \<open>Msg.Pack\<close>), the resolver-configuration reader
  (\<open>dns.ClientConfigFromFile\<close>) and the default client (\<open>dns.Client\<close>) belong to the DNS
  library; they are parameters of the model, with \<open>'msg\<close> the type of a structured
  message. An \<open>Exchanger\<close> talks to the network: \<open>Exchange\<close> takes the query, the
  address and the state \<open>'net\<close> of the network, and returns the reply or an error with
  the state after the exchange (the round-trip time is dropped, as \<open>Query\<close> drops it).
\<close>

type_synonym ('msg, 'net) Exchanger = "'msg \<Rightarrow> string \<Rightarrow> 'net \<Rightarrow> (error + 'msg) \<times> 'net"

record ('msg, 'net) ProxyBackend =
  Servers :: "string list"
  Port :: string
  ResolvConf :: string
  Exchanger :: "('msg, 'net) Exchanger"

definition NewProxy ::
  "(string \<Rightarrow> error + string list) \<Rightarrow> ('msg, 'net) Exchanger \<Rightarrow>
   string list option \<Rightarrow> string \<Rightarrow> string \<Rightarrow> ('msg, 'net) Exchanger option \<Rightarrow>
   error + ('msg, 'net) ProxyBackend"
where
  "NewProxy ClientConfigFromFile dns_Client servers port resolvconf exchanger =
     (let resolvconf = (if resolvconf = [] then ''/etc/resolv.conf'' else resolvconf)
      in case (case servers of
                 None \<Rightarrow> ClientConfigFromFile resolvconf
               | Some given \<Rightarrow> Inr given) of
           Inl err \<Rightarrow> Inl err
         | Inr servers \<Rightarrow>
             (let port = (if port = [] then ''53'' else port);
                  exchanger = (case exchanger of None \<Rightarrow> dns_Client | Some given \<Rightarrow> given)
              in Inr \<lparr>Servers = servers, Port = port, ResolvConf = [], Exchanger = exchanger\<rparr>))"

text \<open>
  \<open>net.JoinHostPort\<close> puts a host that holds a colon (a literal IPv6 address) in
  brackets. Indexing an empty \<open>Servers\<close> is a run-time panic, which ends \<open>Query\<close>
  before the exchange.
\<close>

definition JoinHostPort :: "string \<Rightarrow> string \<Rightarrow> string" where
  "JoinHostPort host port =
     (if CHR '':'' \<in> set host then ''['' @ host @ '']:'' @ port else host @ '':'' @ port)"

datatype panic = IndexOutOfRange

definition ProxyBackend_Query ::
  "(byte list \<Rightarrow> error + 'msg) \<Rightarrow> ('msg \<Rightarrow> error + byte list) \<Rightarrow>
   ('msg, 'net) ProxyBackend \<Rightarrow> byte list \<Rightarrow> 'net \<Rightarrow>
   (panic + byte list option \<times> int \<times> error option) \<times> 'net"
where
  "ProxyBackend_Query Unpack Pack pb qdata net =
     (case Unpack qdata of
        Inl err \<Rightarrow> (Inr (None, StatusBadRequest, Some err), net)
      | Inr m \<Rightarrow>
          (case Servers pb of
             [] \<Rightarrow> (Inl IndexOutOfRange, net)
           | server # others \<Rightarrow>
               (case Exchanger pb m (JoinHostPort server (Port pb)) net of
                  (Inl err, net') \<Rightarrow> (Inr (None, StatusInternalServerError, Some err), net')
                | (Inr r, net') \<Rightarrow>
                    (case Pack r of
                       Inl err \<Rightarrow> (Inr (None, StatusInternalServerError, Some err), net')
                     | Inr rdata \<Rightarrow> (Inr (Some rdata, StatusOK, None), net')))))"

text \<open>
  To observe the calls of an exchanger, \<open>traced\<close> wraps it: the network state is
  paired with the list of the calls made so far, each with its query and address.
\<close>

definition traced :: "('msg, 'net) Exchanger \<Rightarrow> ('msg, 'net \<times> ('msg \<times> string) list) Exchanger" where
  "traced ex m addr = (\<lambda>(net, calls).
     case ex m addr net of (r, net') \<Rightarrow> (r, (net', calls @ [(m, addr)])))"

section \<open>Sample requests, backends and collaborators\<close>

text \<open>
  Concrete values on which the theorems below are run: requests built as the tests of
  the package build them, a backend that echoes the query, one that refuses it, and a
  toy codec, exchangers and configuration reader for the proxy backend.
\<close>

definition NewRequest :: "string \<Rightarrow> (string \<times> string) list \<Rightarrow> string \<Rightarrow> Reader \<Rightarrow> http_Request" where
  "NewRequest method url ctype body =
     \<lparr>Method = method, URL = url,
      Header = (if ctype = [] then Map.empty else [''Content-Type'' \<mapsto> [ctype]]),
      ReqBody = body, RemoteAddr = ''192.0.2.1:1234''\<rparr>"

definition GET_request :: "(string \<times> string) list \<Rightarrow> Database \<Rightarrow> Request" where
  "GET_request url db = \<lparr>W = NewRecorder, R = NewRequest ''GET'' url [] (Reader [] None), DB = db\<rparr>"

definition POST_request ::
  "(string \<times> string) list \<Rightarrow> string \<Rightarrow> Reader \<Rightarrow> Database \<Rightarrow> Request" where
  "POST_request url ctype body db = \<lparr>W = NewRecorder, R = NewRequest ''POST'' url ctype body, DB = db\<rparr>"

definition echo_DB :: Database where
  "echo_DB qdata = (Some qdata, 200, None)"

definition refusing_DB :: Database where
  "refusing_DB qdata = (None, 503, Some (errorString ''backend unavailable''))"

definition toy_Unpack :: "byte list \<Rightarrow> error + byte list" where
  "toy_Unpack msg = (if length msg < 12 then Inl (errorString ''dns: overflow unpacking uint16'')
                     else Inr msg)"

definition toy_Pack :: "byte list \<Rightarrow> error + byte list" where
  "toy_Pack m = (if length m < 12 then Inl (errorString ''dns: bad rcode'') else Inr m)"

definition toy_Exchange :: "(byte list, nat) Exchanger" where
  "toy_Exchange m addr net =
     (if addr = ''127.0.0.1:53535'' then (Inr m, net + 1)
      else (Inl (errorString ''i/o timeout''), net + 1))"

definition broken_Exchange :: "(byte list, nat) Exchanger" where
  "broken_Exchange m addr net = (Inr [], net + 1)"

definition toy_ClientConfigFromFile :: "string \<Rightarrow> error + string list" where
  "toy_ClientConfigFromFile path =
     (if path = ''/etc/resolv.conf'' then Inr [''192.0.2.53'']
      else Inl (errorString (''open '' @ path @ '': no such file or directory'')))"

definition zeros :: "nat \<Rightarrow> byte list" where
  "zeros n = replicate n (CHR 0x00)"

definition www_example_com :: "byte list" where
  "www_example_com =
     [CHR 0x00, CHR 0x00, CHR 0x01, CHR 0x00, CHR 0x00, CHR 0x01, CHR 0x00, CHR 0x00,
      CHR 0x00, CHR 0x00, CHR 0x00, CHR 0x00, CHR 0x03, CHR 0x77, CHR 0x77, CHR 0x77,
      CHR 0x07, CHR 0x65, CHR 0x78, CHR 0x61, CHR 0x6D, CHR 0x70, CHR 0x6C, CHR 0x65,
      CHR 0x03, CHR 0x63, CHR 0x6F, CHR 0x6D, CHR 0x00, CHR 0x00, CHR 0x01, CHR 0x00,
      CHR 0x01]"

section \<open>Facts about the library operations\<close>

subsection \<open>The response writer\<close>

lemma http_Error_Code: "\<not> wroteHeader w \<Longrightarrow> Code (http_Error w s c) = c"
  by (simp add: http_Error_def WriteHeader_def Write_def Let_def)

lemma http_Error_snapHeader:
  "\<not> wroteHeader w \<Longrightarrow>
     snapHeader (http_Error w s c) ''Content-Type'' = Some [''text/plain; charset=utf-8'']"
  by (simp add: http_Error_def WriteHeader_def Write_def Let_def Header_Set_def)

lemma http_Error_Body:
  "\<not> wroteHeader w \<Longrightarrow> Body (http_Error w s c) = Body w @ s @ [CHR 0x0A]"
  by (simp add: http_Error_def WriteHeader_def Write_def Let_def)

lemma Write_Code: "\<not> wroteHeader w \<Longrightarrow> Code (Write w b) = 200"
  by (simp add: WriteHeader_def Write_def Let_def)

lemma Write_Body: "\<not> wroteHeader w \<Longrightarrow> Body (Write w b) = Body w @ b"
  by (simp add: WriteHeader_def Write_def Let_def)

lemma Write_snapHeader: "\<not> wroteHeader w \<Longrightarrow> snapHeader (Write w b) = HeaderMap w"
  by (simp add: WriteHeader_def Write_def Let_def)

lemma wroteHeader_NewRecorder: "\<not> wroteHeader NewRecorder"
  by (simp add: NewRecorder_def)


subsection \<open>Base64: decoding an encoding gives the bytes back\<close>

lemma sextets4:
  fixes x :: nat
  shows "(x div 262144 mod 64) * 262144 + (x div 4096 mod 64) * 4096
           + (x div 64 mod 64) * 64 + x mod 64 = x mod 16777216"
proof -
  have 1: "x mod 16777216 = 64 * (x div 64 mod 262144) + x mod 64"
    using mod_mult2_eq [of x 64 262144] by simp
  have 2: "x div 64 mod 262144 = 64 * (x div 4096 mod 4096) + x div 64 mod 64"
    using mod_mult2_eq [of "x div 64" 64 4096] by (simp add: div_mult2_eq [symmetric])
  have 3: "x div 4096 mod 4096 = 64 * (x div 262144 mod 64) + x div 4096 mod 64"
    using mod_mult2_eq [of "x div 4096" 64 64] by (simp add: div_mult2_eq [symmetric])
  show ?thesis unfolding 1 2 3 by simp
qed

lemma char_of_eqI: "n mod 256 = of_char c \<Longrightarrow> char_of (n::nat) = c"
  by (metis char_of_char char_of_mod_256)

lemma bytes3:
  fixes a b c :: nat
  assumes "a < 256" "b < 256" "c < 256"
  defines "x \<equiv> a * 65536 + b * 256 + c"
  shows "x mod 16777216 = x" "x div 65536 mod 256 = a" "x div 256 mod 256 = b" "x mod 256 = c"
proof -
  show "x mod 16777216 = x" using assms by (intro mod_less) simp
  have "x div 65536 = a" using assms by (intro div_nat_eqI) simp_all
  then show "x div 65536 mod 256 = a" using assms by simp
  have "x div 256 = a * 256 + b" using assms by (intro div_nat_eqI) simp_all
  then show "x div 256 mod 256 = b" using assms by simp
  have "x = c + (a * 256 + b) * 256" by (simp add: x_def)
  then have "x mod 256 = c mod 256" by (simp only: mod_mult_self1)
  then show "x mod 256 = c" using assms by simp
qed

lemma low_sextets_zero:
  fixes a b :: nat
  shows "(a * 65536 + b * 256) mod 64 = 0" "(a * 65536) mod 64 = 0"
        "(a * 65536) div 64 mod 64 = 0"
proof -
  have "a * 65536 + b * 256 = (a * 1024 + b * 4) * 64" by simp
  then show "(a * 65536 + b * 256) mod 64 = 0" by (simp only: mod_mult_self2_is_0)
  have e: "a * 65536 = (a * 1024) * 64" by simp
  then show "(a * 65536) mod 64 = 0" by (simp only: mod_mult_self2_is_0)
  have "(a * 65536) div 64 = (a * 16) * 64" by (simp only: e nonzero_mult_div_cancel_right)
  then show "(a * 65536) div 64 mod 64 = 0" by (simp only: mod_mult_self2_is_0)
qed

lemma distinct_encodeURL: "distinct encodeURL"
  by (simp add: encodeURL_def)

lemma length_encodeURL: "length encodeURL = 64"
  by (simp add: encodeURL_def)

lemma indexFrom_nth:
  "distinct xs \<Longrightarrow> n < length xs \<Longrightarrow> indexFrom i xs (xs ! n) = Some (i + n)"
proof (induction xs arbitrary: i n)
  case Nil
  then show ?case by simp
next
  case (Cons x xs)
  show ?case
  proof (cases n)
    case 0
    then show ?thesis by simp
  next
    case (Suc k)
    with Cons.prems have "k < length xs" "distinct xs" "x \<noteq> xs ! k" by auto
    with Cons.IH [of k "i + 1"] Suc show ?thesis by simp
  qed
qed

lemma decodeMap_encodeURL: "n < 64 \<Longrightarrow> decodeMap (encodeURL ! n) = Some n"
  using indexFrom_nth [OF distinct_encodeURL, of n 0]
  by (simp add: decodeMap_def length_encodeURL)

lemma assemble_quantum4:
  fixes a b c :: char
  defines "x \<equiv> (of_char a :: nat) * 65536 + of_char b * 256 + of_char c"
  shows "assemble [x div 262144 mod 64, x div 4096 mod 64, x div 64 mod 64, x mod 64] = [a, b, c]"
proof -
  note bs = bytes3 [OF nat_of_char_less_256 [of a] nat_of_char_less_256 [of b]
                       nat_of_char_less_256 [of c], folded x_def]
  have v: "x div 262144 mod 64 * 262144 + x div 4096 mod 64 * 4096 + x div 64 mod 64 * 64
          + x mod 64 = x"
    using sextets4 [of x] by (simp only: bs)
  have 1: "char_of (x div 65536) = a" by (rule char_of_eqI) (rule bs)
  have 2: "char_of (x div 256) = b" by (rule char_of_eqI) (rule bs)
  have 3: "char_of x = c" by (rule char_of_eqI) (rule bs)
  show ?thesis unfolding assemble.simps Let_def v 1 2 3 ..
qed

lemma assemble_quantum3:
  fixes a b :: char
  defines "x \<equiv> (of_char a :: nat) * 65536 + of_char b * 256"
  shows "assemble [x div 262144 mod 64, x div 4096 mod 64, x div 64 mod 64] = [a, b]"
proof -
  have x0: "of_char a * 65536 + of_char b * 256 + 0 = x" by (simp add: x_def)
  note bs = bytes3 [OF nat_of_char_less_256 [of a] nat_of_char_less_256 [of b] zero_less_numeral,
                       unfolded x0]
  have z: "x mod 64 = 0" unfolding x_def by (rule low_sextets_zero)
  have v: "x div 262144 mod 64 * 262144 + x div 4096 mod 64 * 4096 + x div 64 mod 64 * 64 = x"
    using sextets4 [of x] by (simp only: bs z add_0_right)
  have 1: "char_of (x div 65536) = a" by (rule char_of_eqI) (rule bs)
  have 2: "char_of (x div 256) = b" by (rule char_of_eqI) (rule bs)
  show ?thesis unfolding assemble.simps Let_def v 1 2 ..
qed

lemma assemble_quantum2:
  fixes a :: char
  defines "x \<equiv> (of_char a :: nat) * 65536"
  shows "assemble [x div 262144 mod 64, x div 4096 mod 64] = [a]"
proof -
  have x0: "of_char a * 65536 + 0 * 256 + 0 = x" by (simp add: x_def)
  note bs = bytes3 [OF nat_of_char_less_256 [of a] zero_less_numeral zero_less_numeral,
                       unfolded x0]
  have z: "x mod 64 = 0" "x div 64 mod 64 = 0" unfolding x_def by (rule low_sextets_zero)+
  have v: "x div 262144 mod 64 * 262144 + x div 4096 mod 64 * 4096 = x"
    using sextets4 [of x] by (simp only: bs z add_0_right mult_0)
  have 1: "char_of (x div 65536) = a" by (rule char_of_eqI) (rule bs)
  show ?thesis unfolding assemble.simps Let_def v 1 ..
qed

lemma decode_EncodeToString: "decode si [] (EncodeToString q) = Inr q"
proof (induction q arbitrary: si rule: EncodeToString.induct)
  case 1
  show ?case by simp
next
  case (2 a)
  show ?case
    using assemble_quantum2 [of a]
    by (simp add: Let_def decodeMap_encodeURL del: assemble.simps)
next
  case (3 a b)
  show ?case
    using assemble_quantum3 [of a b]
    by (simp add: Let_def decodeMap_encodeURL del: assemble.simps)
next
  case (4 a b c src)
  show ?case
    using assemble_quantum4 [of a b c] 4 [OF refl]
    by (simp add: Let_def decodeMap_encodeURL del: assemble.simps)
qed

lemma DecodeString_EncodeToString: "DecodeString (EncodeToString q) = Inr q"
  by (simp add: DecodeString_def decode_EncodeToString)

lemma EncodeToString_empty: "EncodeToString q = [] \<longleftrightarrow> q = []"
  by (induction q rule: EncodeToString.induct) (simp_all add: Let_def)

subsection \<open>Sample values\<close>

lemma DecodeString_bang: "DecodeString ''!'' = Inl (CorruptInputError 0)"
  by (simp add: DecodeString_def decodeMap_def encodeURL_def)

lemma char_of_eq_iff: "char_of (n::nat) = c \<longleftrightarrow> n mod 256 = of_char c"
  by (metis char_of_char char_of_mod_256 of_char_of)

lemma DecodeString_www_example_com:
  "DecodeString ''AAABAAABAAAAAAAAA3d3dwdleGFtcGxlA2NvbQAAAQAB'' = Inr www_example_com"
  by (simp add: DecodeString_def decodeMap_def encodeURL_def www_example_com_def char_of_eq_iff)

lemma length_www_example_com: "length www_example_com = 33"
  by (simp add: www_example_com_def)

lemma length_zeros: "length (zeros n) = n"
  by (simp add: zeros_def)

lemma zeros_Nil: "zeros n = [] \<longleftrightarrow> n = 0"
  by (simp add: zeros_def)

lemma www_example_com_nonempty: "www_example_com \<noteq> []"
  using length_www_example_com by auto

subsection \<open>The request body and the step that queries the backend\<close>

lemma URL_Query_None: "URL_Query u key = None \<longleftrightarrow> param_values u key = []"
  by (simp add: URL_Query_def Let_def)

lemma MaxBytesReader_ReadAll:
  "ioutil_ReadAll (http_MaxBytesReader b n) =
     (if n < length (data b)
      then (take n (data b), Some (errorString ''http: request body too large''))
      else (data b, fail b))"
  by (simp add: ioutil_ReadAll_def http_MaxBytesReader_def)

lemma mime_text: "mime = ''application/dns-udpwireformat''"
  by (simp add: mime_def)

lemma GetRequest_Handle_query:
  assumes "param_values (URL (R req)) ''dns'' = [v]" and "v \<noteq> []"
    and "DecodeString v = Inr qdata"
  shows "GetRequest_Handle req =
     (case DB req qdata of
        (rdata, httpStatus, Some err) \<Rightarrow>
          (http_Error ((W req)\<lparr>HeaderMap := Header_Set (HeaderMap (W req)) ''Content-Type'' mime\<rparr>)
             (http_StatusText httpStatus) httpStatus, Some err)
      | (rdata, httpStatus, None) \<Rightarrow>
          (Write ((W req)\<lparr>HeaderMap := Header_Set (HeaderMap (W req)) ''Content-Type'' mime\<rparr>)
             (bytes_of rdata), None))"
  using assms by (simp add: GetRequest_Handle_def URL_Query_def Let_def)

lemma PostRequest_Handle_query:
  assumes "param_values (URL (R req)) ''dns'' = []"
    and "Header_Get (Header (R req)) ''Content-Type'' = mime"
    and "fail (ReqBody (R req)) = None" and "data (ReqBody (R req)) = body"
    and "body \<noteq> []" and "length body \<le> 8192"
  shows "PostRequest_Handle req =
     (case DB req body of
        (rdata, httpStatus, Some err) \<Rightarrow>
          (http_Error ((W req)\<lparr>HeaderMap := Header_Set (HeaderMap (W req)) ''Content-Type'' mime\<rparr>)
             (http_StatusText httpStatus) httpStatus, Some err)
      | (rdata, httpStatus, None) \<Rightarrow>
          (Write ((W req)\<lparr>HeaderMap := Header_Set (HeaderMap (W req)) ''Content-Type'' mime\<rparr>)
             (bytes_of rdata), None))"
  using assms
  by (simp add: PostRequest_Handle_def URL_Query_None Let_def MaxBytesReader_ReadAll)

subsection \<open>Rows of the package's test table, run on the model\<close>

text \<open>
  The tests of the package expect, on a recorder: status 400 with body \<open>Bad Request\<close>
  and \<open>text/plain; charset=utf-8\<close> for a GET request without \<open>dns\<close> parameter,
  405 for \<open>PUT\<close>, 413 for a POST body of 8193 bytes. The handler logs the remote
  address and the error.
\<close>

lemma http_Error_NewRecorder:
  "http_Error (NewRecorder\<lparr>HeaderMap := h\<rparr>) s c =
     \<lparr>HeaderMap = h(''Content-Type'' \<mapsto> [''text/plain; charset=utf-8''],
                      ''X-Content-Type-Options'' \<mapsto> [''nosniff'']),
      wroteHeader = True, Code = c,
      snapHeader = h(''Content-Type'' \<mapsto> [''text/plain; charset=utf-8''],
                      ''X-Content-Type-Options'' \<mapsto> [''nosniff'']),
      Body = s @ [CHR 0x0A]\<rparr>"
  by (simp add: http_Error_def NewRecorder_def WriteHeader_def Write_def Let_def Header_Set_def)

lemma test_GET_with_no_dns_parameter:
  "Code (fst (HandleRequest echo_DB None NewRecorder (NewRequest ''GET'' [] [] (Reader [] None)))) = 400
   \<and> Body (fst (HandleRequest echo_DB None NewRecorder (NewRequest ''GET'' [] [] (Reader [] None))))
       = ''Bad Request'' @ [CHR 0x0A]
   \<and> Header_Get (snapHeader (fst (HandleRequest echo_DB None NewRecorder
         (NewRequest ''GET'' [] [] (Reader [] None))))) ''Content-Type''
       = ''text/plain; charset=utf-8''"
  by (simp add: HandleRequest_def GetRequest_Handle_def NewRequest_def URL_Query_def
        param_values_def Let_def http_Error_NewRecorder http_StatusText_def statusText_def
        Header_Get_def)

lemma test_unsupported_PUT_method:
  "Code (fst (HandleRequest echo_DB None NewRecorder (NewRequest ''PUT'' [] [] (Reader [] None)))) = 405
   \<and> Body (fst (HandleRequest echo_DB None NewRecorder (NewRequest ''PUT'' [] [] (Reader [] None))))
       = ''Method Not Allowed'' @ [CHR 0x0A]"
  by (simp add: HandleRequest_def NewRequest_def Let_def http_Error_Code http_Error_Body
        wroteHeader_NewRecorder http_StatusText_def statusText_def NewRecorder_def)

lemma test_POST_with_too_large_request_Body:
  "Code (fst (HandleRequest echo_DB None NewRecorder
      (NewRequest ''POST'' [] ''application/dns-udpwireformat'' (Reader (zeros 8193) None)))) = 413
   \<and> Body (fst (HandleRequest echo_DB None NewRecorder
      (NewRequest ''POST'' [] ''application/dns-udpwireformat'' (Reader (zeros 8193) None))))
       = ''Request Entity Too Large'' @ [CHR 0x0A]"
  by (simp add: HandleRequest_def PostRequest_Handle_def NewRequest_def URL_Query_def
        param_values_def Let_def Header_Get_def mime_def MaxBytesReader_ReadAll length_zeros
        http_Error_NewRecorder http_StatusText_def statusText_def)

lemma test_log_line:
  "snd (HandleRequest echo_DB (Some []) NewRecorder (NewRequest ''GET'' [(''dns'', ''!'')] [] (Reader [] None)))
     = Some [''192.0.2.1:1234 | illegal base64 data at input byte 0'']"
  by (simp add: HandleRequest_def GetRequest_Handle_def NewRequest_def URL_Query_def
        param_values_def Let_def DecodeString_bang Printf_def char_of_eq_iff)

section \<open>The GET and POST validators\<close>

text \<open>
  C1. A GET request on a fresh response writer: without a \<open>dns\<close> parameter the status is
  400; with more than one the status is 422, whatever their values (so two empty ones give
  422); with exactly one, empty, the status is 400; with exactly one, not empty, that does
  not decode as unpadded base64url, the status is 400 and the handler returns the
  decoder's error.
\<close>

theorem GetRequest_Handle_validation:
  assumes "\<not> wroteHeader (W req)"
  shows "(param_values (URL (R req)) ''dns'' = [] \<longrightarrow>
            Code (fst (GetRequest_Handle req)) = 400)
       \<and> (1 < length (param_values (URL (R req)) ''dns'') \<longrightarrow>
            Code (fst (GetRequest_Handle req)) = 422)
       \<and> (param_values (URL (R req)) ''dns'' = [[]] \<longrightarrow>
            Code (fst (GetRequest_Handle req)) = 400)
       \<and> (\<forall>v err. param_values (URL (R req)) ''dns'' = [v] \<and> v \<noteq> [] \<and> DecodeString v = Inl err \<longrightarrow>
            Code (fst (GetRequest_Handle req)) = 400 \<and> snd (GetRequest_Handle req) = Some err)"
  using assms
  by (auto simp add: GetRequest_Handle_def URL_Query_def Let_def http_Error_Code)

theorem GetRequest_Handle_validation_witness:
  "\<not> wroteHeader (W (GET_request [] echo_DB))
   \<and> param_values (URL (R (GET_request [] echo_DB))) ''dns'' = []
   \<and> Code (fst (GetRequest_Handle (GET_request [] echo_DB))) = 400
   \<and> 1 < length (param_values (URL (R (GET_request [(''dns'', []), (''dns'', [])] echo_DB))) ''dns'')
   \<and> Code (fst (GetRequest_Handle (GET_request [(''dns'', []), (''dns'', [])] echo_DB))) = 422
   \<and> param_values (URL (R (GET_request [(''dns'', [])] echo_DB))) ''dns'' = [[]]
   \<and> Code (fst (GetRequest_Handle (GET_request [(''dns'', [])] echo_DB))) = 400
   \<and> param_values (URL (R (GET_request [(''dns'', ''!'')] echo_DB))) ''dns'' = [''!'']
   \<and> DecodeString ''!'' = Inl (CorruptInputError 0)
   \<and> Code (fst (GetRequest_Handle (GET_request [(''dns'', ''!'')] echo_DB))) = 400
   \<and> snd (GetRequest_Handle (GET_request [(''dns'', ''!'')] echo_DB)) = Some (CorruptInputError 0)"
  using GetRequest_Handle_validation [of "GET_request [] echo_DB"]
        GetRequest_Handle_validation [of "GET_request [(''dns'', []), (''dns'', [])] echo_DB"]
        GetRequest_Handle_validation [of "GET_request [(''dns'', [])] echo_DB"]
        GetRequest_Handle_validation [of "GET_request [(''dns'', ''!'')] echo_DB"]
  by (simp add: GET_request_def NewRequest_def param_values_def wroteHeader_NewRecorder
        DecodeString_bang)

text \<open>
  C2 (as stated). The claim that every response, failures included, carries
  \<open>Content-Type: application/dns-udpwireformat\<close> fails: \<open>http.Error\<close> sets the
  header anew before it sends the status line. A GET request without a \<open>dns\<close>
  parameter is answered with \<open>text/plain; charset=utf-8\<close>.
\<close>

theorem Content_Type_counterexample:
  "snapHeader (fst (GetRequest_Handle (GET_request [] echo_DB))) ''Content-Type''
     = Some [''text/plain; charset=utf-8'']
   \<and> snapHeader (fst (GetRequest_Handle (GET_request [] echo_DB))) ''Content-Type''
     \<noteq> Some [''application/dns-udpwireformat'']"
  by (simp add: GetRequest_Handle_def GET_request_def NewRequest_def URL_Query_def
        param_values_def Let_def http_Error_snapHeader wroteHeader_NewRecorder)

text \<open>
  C2 (amended). On a fresh response writer, a response of the GET or POST validator that
  ends without an error has status 200 and carries
  \<open>Content-Type: application/dns-udpwireformat\<close>; a response that ends with an error
  carries \<open>Content-Type: text/plain; charset=utf-8\<close>.
\<close>

theorem response_Content_Type:
  assumes "\<not> wroteHeader (W req)"
  shows "(snd (GetRequest_Handle req) = None \<longrightarrow>
            Code (fst (GetRequest_Handle req)) = 200
            \<and> snapHeader (fst (GetRequest_Handle req)) ''Content-Type''
                = Some [''application/dns-udpwireformat''])
       \<and> (snd (GetRequest_Handle req) \<noteq> None \<longrightarrow>
            snapHeader (fst (GetRequest_Handle req)) ''Content-Type''
                = Some [''text/plain; charset=utf-8''])
       \<and> (snd (PostRequest_Handle req) = None \<longrightarrow>
            Code (fst (PostRequest_Handle req)) = 200
            \<and> snapHeader (fst (PostRequest_Handle req)) ''Content-Type''
                = Some [''application/dns-udpwireformat''])
       \<and> (snd (PostRequest_Handle req) \<noteq> None \<longrightarrow>
            snapHeader (fst (PostRequest_Handle req)) ''Content-Type''
                = Some [''text/plain; charset=utf-8''])"
proof -
  let ?w = "(W req)\<lparr>HeaderMap := Header_Set (HeaderMap (W req)) ''Content-Type'' mime\<rparr>"
  have w: "\<not> wroteHeader ?w" using assms by simp
  have ct: "Header_Set h ''Content-Type'' mime ''Content-Type''
              = Some [''application/dns-udpwireformat'']" for h
    by (simp add: Header_Set_def mime_def)
  note facts = http_Error_snapHeader [OF w] Write_Code [OF w] Write_snapHeader [OF w] ct
  have get: "(snd (GetRequest_Handle req) = None \<longrightarrow>
            Code (fst (GetRequest_Handle req)) = 200
            \<and> snapHeader (fst (GetRequest_Handle req)) ''Content-Type''
                = Some [''application/dns-udpwireformat''])
       \<and> (snd (GetRequest_Handle req) \<noteq> None \<longrightarrow>
            snapHeader (fst (GetRequest_Handle req)) ''Content-Type''
                = Some [''text/plain; charset=utf-8''])"
    unfolding GetRequest_Handle_def Let_def
    by (simp add: facts split: option.split sum.split prod.split)
  have post: "(snd (PostRequest_Handle req) = None \<longrightarrow>
            Code (fst (PostRequest_Handle req)) = 200
            \<and> snapHeader (fst (PostRequest_Handle req)) ''Content-Type''
                = Some [''application/dns-udpwireformat''])
       \<and> (snd (PostRequest_Handle req) \<noteq> None \<longrightarrow>
            snapHeader (fst (PostRequest_Handle req)) ''Content-Type''
                = Some [''text/plain; charset=utf-8''])"
    unfolding PostRequest_Handle_def Let_def
    by (simp add: facts split: option.split sum.split prod.split)
  from get post show ?thesis by blast
qed

theorem response_Content_Type_witness:
  "snd (GetRequest_Handle
      (GET_request [(''dns'', ''AAABAAABAAAAAAAAA3d3dwdleGFtcGxlA2NvbQAAAQAB'')] echo_DB)) = None
   \<and> snapHeader (fst (GetRequest_Handle
      (GET_request [(''dns'', ''AAABAAABAAAAAAAAA3d3dwdleGFtcGxlA2NvbQAAAQAB'')] echo_DB)))
        ''Content-Type'' = Some [''application/dns-udpwireformat'']
   \<and> snd (GetRequest_Handle (GET_request [] echo_DB)) \<noteq> None
   \<and> snapHeader (fst (GetRequest_Handle (GET_request [] echo_DB))) ''Content-Type''
        = Some [''text/plain; charset=utf-8'']
   \<and> snd (PostRequest_Handle (POST_request [] ''application/dns-udpwireformat''
        (Reader www_example_com None) echo_DB)) = None
   \<and> snapHeader (fst (PostRequest_Handle (POST_request [] ''application/dns-udpwireformat''
        (Reader www_example_com None) echo_DB))) ''Content-Type''
        = Some [''application/dns-udpwireformat'']
   \<and> snd (PostRequest_Handle (POST_request [] ''text/plain''
        (Reader www_example_com None) echo_DB)) \<noteq> None
   \<and> snapHeader (fst (PostRequest_Handle (POST_request [] ''text/plain''
        (Reader www_example_com None) echo_DB))) ''Content-Type''
        = Some [''text/plain; charset=utf-8'']"
proof -
  have fresh: "\<not> wroteHeader (W (GET_request u db))"
       "\<not> wroteHeader (W (POST_request u c b db))" for u c b db
    by (simp_all add: GET_request_def POST_request_def NewRecorder_def)
  have g1: "snd (GetRequest_Handle
      (GET_request [(''dns'', ''AAABAAABAAAAAAAAA3d3dwdleGFtcGxlA2NvbQAAAQAB'')] echo_DB)) = None"
    by (simp add: GetRequest_Handle_def GET_request_def NewRequest_def URL_Query_def
          param_values_def Let_def DecodeString_www_example_com echo_DB_def)
  have g2: "snd (GetRequest_Handle (GET_request [] echo_DB)) \<noteq> None"
    by (simp add: GetRequest_Handle_def GET_request_def NewRequest_def URL_Query_def
          param_values_def Let_def)
  have p1: "snd (PostRequest_Handle (POST_request [] ''application/dns-udpwireformat''
        (Reader www_example_com None) echo_DB)) = None"
    by (simp add: PostRequest_Handle_def POST_request_def NewRequest_def URL_Query_def
          param_values_def Let_def echo_DB_def Header_Get_def mime_def MaxBytesReader_ReadAll
          length_www_example_com www_example_com_nonempty)
  have p2: "snd (PostRequest_Handle (POST_request [] ''text/plain''
        (Reader www_example_com None) echo_DB)) \<noteq> None"
    by (simp add: PostRequest_Handle_def POST_request_def NewRequest_def URL_Query_def
          param_values_def Let_def Header_Get_def mime_def)
  show ?thesis
    using response_Content_Type [OF fresh(1),
            of "[(''dns'', ''AAABAAABAAAAAAAAA3d3dwdleGFtcGxlA2NvbQAAAQAB'')]" echo_DB]
          response_Content_Type [OF fresh(1), of "[]" echo_DB]
          response_Content_Type [OF fresh(2),
            of "[]" "''application/dns-udpwireformat''" "Reader www_example_com None" echo_DB]
          response_Content_Type [OF fresh(2),
            of "[]" "''text/plain''" "Reader www_example_com None" echo_DB]
          g1 g2 p1 p2
    by simp
qed

text \<open>
  C3. A POST request on a fresh response writer: with a \<open>dns\<close> parameter, whatever
  its value and whatever the request's \<open>Content-Type\<close>, the status is 400; without
  one, and with a \<open>Content-Type\<close> other than \<open>application/dns-udpwireformat\<close>, the
  status is 415.
\<close>

theorem PostRequest_Handle_param_then_content_type:
  assumes "\<not> wroteHeader (W req)"
  shows "(param_values (URL (R req)) ''dns'' \<noteq> [] \<longrightarrow>
            Code (fst (PostRequest_Handle req)) = 400)
       \<and> (param_values (URL (R req)) ''dns'' = []
            \<and> Header_Get (Header (R req)) ''Content-Type'' \<noteq> ''application/dns-udpwireformat'' \<longrightarrow>
            Code (fst (PostRequest_Handle req)) = 415)"
  using assms
  by (simp add: PostRequest_Handle_def URL_Query_None Let_def http_Error_Code mime_def)

theorem PostRequest_Handle_param_then_content_type_witness:
  "\<not> wroteHeader (W (POST_request [(''dns'', ''AAAB'')] ''text/plain'' (Reader www_example_com None) echo_DB))
   \<and> param_values (URL (R (POST_request [(''dns'', ''AAAB'')] ''text/plain''
         (Reader www_example_com None) echo_DB))) ''dns'' \<noteq> []
   \<and> Code (fst (PostRequest_Handle (POST_request [(''dns'', ''AAAB'')] ''text/plain''
         (Reader www_example_com None) echo_DB))) = 400
   \<and> param_values (URL (R (POST_request [] ''text/plain''
         (Reader www_example_com None) echo_DB))) ''dns'' = []
   \<and> Header_Get (Header (R (POST_request [] ''text/plain'' (Reader www_example_com None) echo_DB)))
         ''Content-Type'' \<noteq> ''application/dns-udpwireformat''
   \<and> Code (fst (PostRequest_Handle (POST_request [] ''text/plain''
         (Reader www_example_com None) echo_DB))) = 415"
  using PostRequest_Handle_param_then_content_type
          [of "POST_request [(''dns'', ''AAAB'')] ''text/plain'' (Reader www_example_com None) echo_DB"]
        PostRequest_Handle_param_then_content_type
          [of "POST_request [] ''text/plain'' (Reader www_example_com None) echo_DB"]
  by (simp add: POST_request_def NewRequest_def param_values_def wroteHeader_NewRecorder
        Header_Get_def)

text \<open>
  C4. A POST request on a fresh response writer that has no \<open>dns\<close> parameter and the
  right \<open>Content-Type\<close>: a body of exactly 8192 bytes goes whole to the backend, whose
  outcome is the response; a body of 8193 bytes or more gives status 413 with the
  body-too-large error; a body that fails to read within the limit gives 500, unless
  the message of its error is the body-too-large message, which gives 413; an empty body
  that reads without error gives 400.
\<close>

theorem PostRequest_Handle_body:
  assumes "\<not> wroteHeader (W req)"
    and "param_values (URL (R req)) ''dns'' = []"
    and "Header_Get (Header (R req)) ''Content-Type'' = ''application/dns-udpwireformat''"
  shows "(length (data (ReqBody (R req))) = 8192 \<and> fail (ReqBody (R req)) = None \<longrightarrow>
            PostRequest_Handle req =
              (case DB req (data (ReqBody (R req))) of
                 (rdata, httpStatus, Some err) \<Rightarrow>
                   (http_Error ((W req)\<lparr>HeaderMap := Header_Set (HeaderMap (W req)) ''Content-Type'' mime\<rparr>)
                      (http_StatusText httpStatus) httpStatus, Some err)
               | (rdata, httpStatus, None) \<Rightarrow>
                   (Write ((W req)\<lparr>HeaderMap := Header_Set (HeaderMap (W req)) ''Content-Type'' mime\<rparr>)
                      (bytes_of rdata), None)))
       \<and> (8193 \<le> length (data (ReqBody (R req))) \<longrightarrow>
            Code (fst (PostRequest_Handle req)) = 413
            \<and> snd (PostRequest_Handle req) = Some (errorString ''http: request body too large''))
       \<and> (\<forall>err. length (data (ReqBody (R req))) \<le> 8192 \<and> fail (ReqBody (R req)) = Some err \<longrightarrow>
            Code (fst (PostRequest_Handle req)) =
              (if Error err = ''http: request body too large'' then 413 else 500)
            \<and> snd (PostRequest_Handle req) = Some err)
       \<and> (data (ReqBody (R req)) = [] \<and> fail (ReqBody (R req)) = None \<longrightarrow>
            Code (fst (PostRequest_Handle req)) = 400)"
  using assms
  by (simp add: PostRequest_Handle_def URL_Query_None Let_def http_Error_Code mime_def
        MaxBytesReader_ReadAll)

theorem PostRequest_Handle_body_witness:
  "Code (fst (PostRequest_Handle (POST_request [] ''application/dns-udpwireformat''
      (Reader (zeros 8192) None) echo_DB))) = 200
   \<and> Body (fst (PostRequest_Handle (POST_request [] ''application/dns-udpwireformat''
      (Reader (zeros 8192) None) echo_DB))) = zeros 8192
   \<and> Code (fst (PostRequest_Handle (POST_request [] ''application/dns-udpwireformat''
      (Reader (zeros 8193) None) echo_DB))) = 413
   \<and> Code (fst (PostRequest_Handle (POST_request [] ''application/dns-udpwireformat''
      (Reader [] (Some (errorString ''test error''))) echo_DB))) = 500
   \<and> Code (fst (PostRequest_Handle (POST_request [] ''application/dns-udpwireformat''
      (Reader [] (Some (errorString ''http: request body too large''))) echo_DB))) = 413
   \<and> Code (fst (PostRequest_Handle (POST_request [] ''application/dns-udpwireformat''
      (Reader [] None) echo_DB))) = 400"
proof -
  have pre: "\<not> wroteHeader (W (POST_request [] ''application/dns-udpwireformat'' b echo_DB))"
    "param_values (URL (R (POST_request [] ''application/dns-udpwireformat'' b echo_DB))) ''dns'' = []"
    "Header_Get (Header (R (POST_request [] ''application/dns-udpwireformat'' b echo_DB)))
       ''Content-Type'' = ''application/dns-udpwireformat''"
    for b
    by (simp_all add: POST_request_def NewRequest_def NewRecorder_def param_values_def
          Header_Get_def)
  have w: "\<not> wroteHeader (NewRecorder\<lparr>HeaderMap := h\<rparr>)" "Body (NewRecorder\<lparr>HeaderMap := h\<rparr>) = []"
    for h by (simp_all add: NewRecorder_def)
  show ?thesis
    using PostRequest_Handle_body [OF pre, of "Reader (zeros 8192) None"]
          PostRequest_Handle_body [OF pre, of "Reader (zeros 8193) None"]
          PostRequest_Handle_body [OF pre, of "Reader [] (Some (errorString ''test error''))"]
          PostRequest_Handle_body [OF pre,
            of "Reader [] (Some (errorString ''http: request body too large''))"]
          PostRequest_Handle_body [OF pre, of "Reader [] None"]
    by (simp add: POST_request_def NewRequest_def echo_DB_def bytes_of_def length_zeros
          Write_Code Write_Body w)
qed

text \<open>
  C5. When the bytes of a GET request (one non-empty \<open>dns\<close> parameter that decodes)
  or of a POST request (no \<open>dns\<close> parameter, the right \<open>Content-Type\<close>, a body of 1
  to 8192 bytes read to its end) reach the backend, on a fresh response writer with
  nothing written: if the backend returns an error, the response has the status the
  backend returned and the handler returns that error; if it returns none, the status is
  200, the body is exactly the bytes the backend returned, and the handler returns no
  error.
\<close>

theorem backend_outcome_to_response:
  assumes fresh: "\<not> wroteHeader (W req)" and empty: "Body (W req) = []"
  shows "(\<forall>v qdata rdata httpStatus err.
            param_values (URL (R req)) ''dns'' = [v] \<and> v \<noteq> [] \<and> DecodeString v = Inr qdata \<longrightarrow>
              (DB req qdata = (rdata, httpStatus, Some err) \<longrightarrow>
                 Code (fst (GetRequest_Handle req)) = httpStatus
                 \<and> snd (GetRequest_Handle req) = Some err)
            \<and> (DB req qdata = (rdata, httpStatus, None) \<longrightarrow>
                 Code (fst (GetRequest_Handle req)) = 200
                 \<and> Body (fst (GetRequest_Handle req)) = bytes_of rdata
                 \<and> snd (GetRequest_Handle req) = None))
       \<and> (\<forall>body rdata httpStatus err.
            param_values (URL (R req)) ''dns'' = []
            \<and> Header_Get (Header (R req)) ''Content-Type'' = ''application/dns-udpwireformat''
            \<and> ReqBody (R req) = Reader body None \<and> body \<noteq> [] \<and> length body \<le> 8192 \<longrightarrow>
              (DB req body = (rdata, httpStatus, Some err) \<longrightarrow>
                 Code (fst (PostRequest_Handle req)) = httpStatus
                 \<and> snd (PostRequest_Handle req) = Some err)
            \<and> (DB req body = (rdata, httpStatus, None) \<longrightarrow>
                 Code (fst (PostRequest_Handle req)) = 200
                 \<and> Body (fst (PostRequest_Handle req)) = bytes_of rdata
                 \<and> snd (PostRequest_Handle req) = None))"
proof -
  let ?w = "(W req)\<lparr>HeaderMap := Header_Set (HeaderMap (W req)) ''Content-Type'' mime\<rparr>"
  have w: "\<not> wroteHeader ?w" "Body ?w = []" using fresh empty by simp_all
  have get: "(DB req qdata = (rdata, httpStatus, Some err) \<longrightarrow>
                 Code (fst (GetRequest_Handle req)) = httpStatus
                 \<and> snd (GetRequest_Handle req) = Some err)
            \<and> (DB req qdata = (rdata, httpStatus, None) \<longrightarrow>
                 Code (fst (GetRequest_Handle req)) = 200
                 \<and> Body (fst (GetRequest_Handle req)) = bytes_of rdata
                 \<and> snd (GetRequest_Handle req) = None)"
    if "param_values (URL (R req)) ''dns'' = [v]" "v \<noteq> []" "DecodeString v = Inr qdata"
    for v qdata rdata httpStatus err
    unfolding GetRequest_Handle_query [OF that]
    by (simp add: http_Error_Code [OF w(1)] Write_Code [OF w(1)] Write_Body [OF w(1)] w(2))
  have post: "(DB req body = (rdata, httpStatus, Some err) \<longrightarrow>
                 Code (fst (PostRequest_Handle req)) = httpStatus
                 \<and> snd (PostRequest_Handle req) = Some err)
            \<and> (DB req body = (rdata, httpStatus, None) \<longrightarrow>
                 Code (fst (PostRequest_Handle req)) = 200
                 \<and> Body (fst (PostRequest_Handle req)) = bytes_of rdata
                 \<and> snd (PostRequest_Handle req) = None)"
    if "param_values (URL (R req)) ''dns'' = []"
       "Header_Get (Header (R req)) ''Content-Type'' = ''application/dns-udpwireformat''"
       "ReqBody (R req) = Reader body None" "body \<noteq> []" "length body \<le> 8192"
    for body rdata httpStatus err
  proof -
    have q: "PostRequest_Handle req =
       (case DB req body of
          (rdata, httpStatus, Some err) \<Rightarrow> (http_Error ?w (http_StatusText httpStatus) httpStatus, Some err)
        | (rdata, httpStatus, None) \<Rightarrow> (Write ?w (bytes_of rdata), None))"
      using that by (intro PostRequest_Handle_query) (simp_all add: mime_text)
    show ?thesis
      unfolding q
      by (simp add: http_Error_Code [OF w(1)] Write_Code [OF w(1)] Write_Body [OF w(1)] w(2))
  qed
  from get post show ?thesis by blast
qed

theorem backend_outcome_to_response_witness:
  "Code (fst (GetRequest_Handle
      (GET_request [(''dns'', ''AAABAAABAAAAAAAAA3d3dwdleGFtcGxlA2NvbQAAAQAB'')] refusing_DB))) = 503
   \<and> snd (GetRequest_Handle
      (GET_request [(''dns'', ''AAABAAABAAAAAAAAA3d3dwdleGFtcGxlA2NvbQAAAQAB'')] refusing_DB))
        = Some (errorString ''backend unavailable'')
   \<and> Code (fst (GetRequest_Handle
      (GET_request [(''dns'', ''AAABAAABAAAAAAAAA3d3dwdleGFtcGxlA2NvbQAAAQAB'')] echo_DB))) = 200
   \<and> Body (fst (GetRequest_Handle
      (GET_request [(''dns'', ''AAABAAABAAAAAAAAA3d3dwdleGFtcGxlA2NvbQAAAQAB'')] echo_DB)))
        = www_example_com
   \<and> Code (fst (PostRequest_Handle (POST_request [] ''application/dns-udpwireformat''
        (Reader www_example_com None) refusing_DB))) = 503
   \<and> snd (PostRequest_Handle (POST_request [] ''application/dns-udpwireformat''
        (Reader www_example_com None) refusing_DB)) = Some (errorString ''backend unavailable'')
   \<and> Code (fst (PostRequest_Handle (POST_request [] ''application/dns-udpwireformat''
        (Reader www_example_com None) echo_DB))) = 200
   \<and> Body (fst (PostRequest_Handle (POST_request [] ''application/dns-udpwireformat''
        (Reader www_example_com None) echo_DB))) = www_example_com"
proof -
  have fresh: "\<not> wroteHeader (W (GET_request u db))" "Body (W (GET_request u db)) = []"
       "\<not> wroteHeader (W (POST_request u c b db))" "Body (W (POST_request u c b db)) = []"
    for u c b db
    by (simp_all add: GET_request_def POST_request_def NewRecorder_def)
  show ?thesis
    using backend_outcome_to_response [OF fresh(1,2),
            of "[(''dns'', ''AAABAAABAAAAAAAAA3d3dwdleGFtcGxlA2NvbQAAAQAB'')]" refusing_DB]
          backend_outcome_to_response [OF fresh(1,2),
            of "[(''dns'', ''AAABAAABAAAAAAAAA3d3dwdleGFtcGxlA2NvbQAAAQAB'')]" echo_DB]
          backend_outcome_to_response [OF fresh(3,4),
            of "[]" "''application/dns-udpwireformat''" "Reader www_example_com None" refusing_DB]
          backend_outcome_to_response [OF fresh(3,4),
            of "[]" "''application/dns-udpwireformat''" "Reader www_example_com None" echo_DB]
    by (simp add: GET_request_def POST_request_def NewRequest_def param_values_def
          Header_Get_def echo_DB_def refusing_DB_def bytes_of_def DecodeString_www_example_com
          www_example_com_nonempty length_www_example_com)
qed

section \<open>The proxy backend: construction and queries\<close>

lemma JoinHostPort_localhost: "JoinHostPort ''127.0.0.1'' ''53535'' = ''127.0.0.1:53535''"
  by (simp add: JoinHostPort_def)

lemma JoinHostPort_other: "JoinHostPort ''192.0.2.53'' ''53'' = ''192.0.2.53:53''"
  by (simp add: JoinHostPort_def)

text \<open>
  C6. \<open>Query\<close> returns nil, 400 and the codec's error when the bytes do not unpack;
  nil, 500 and the exchanger's error when they unpack and the exchange with the first
  server fails; nil, 500 and the codec's error when the exchange succeeds and the reply
  does not pack; the packed reply, 200 and no error when all three steps succeed.
\<close>

theorem ProxyBackend_Query_results:
  "(\<forall>err. Unpack qdata = Inl err \<longrightarrow>
       fst (ProxyBackend_Query Unpack Pack pb qdata net) = Inr (None, 400, Some err))
   \<and> (\<forall>m server others err net'.
         Unpack qdata = Inr m \<and> Servers pb = server # others
         \<and> Exchanger pb m (JoinHostPort server (Port pb)) net = (Inl err, net') \<longrightarrow>
       fst (ProxyBackend_Query Unpack Pack pb qdata net) = Inr (None, 500, Some err))
   \<and> (\<forall>m server others r err net'.
         Unpack qdata = Inr m \<and> Servers pb = server # others
         \<and> Exchanger pb m (JoinHostPort server (Port pb)) net = (Inr r, net')
         \<and> Pack r = Inl err \<longrightarrow>
       fst (ProxyBackend_Query Unpack Pack pb qdata net) = Inr (None, 500, Some err))
   \<and> (\<forall>m server others r rdata net'.
         Unpack qdata = Inr m \<and> Servers pb = server # others
         \<and> Exchanger pb m (JoinHostPort server (Port pb)) net = (Inr r, net')
         \<and> Pack r = Inr rdata \<longrightarrow>
       fst (ProxyBackend_Query Unpack Pack pb qdata net) = Inr (Some rdata, 200, None))"
  by (simp add: ProxyBackend_Query_def)

theorem ProxyBackend_Query_results_witness:
  "fst (ProxyBackend_Query toy_Unpack toy_Pack
          \<lparr>Servers = [''127.0.0.1''], Port = ''53535'', ResolvConf = [], Exchanger = toy_Exchange\<rparr>
          ''invalid'' 0)
     = Inr (None, 400, Some (errorString ''dns: overflow unpacking uint16''))
   \<and> fst (ProxyBackend_Query toy_Unpack toy_Pack
          \<lparr>Servers = [''192.0.2.53''], Port = ''53'', ResolvConf = [], Exchanger = toy_Exchange\<rparr>
          www_example_com 0)
     = Inr (None, 500, Some (errorString ''i/o timeout''))
   \<and> fst (ProxyBackend_Query toy_Unpack toy_Pack
          \<lparr>Servers = [''127.0.0.1''], Port = ''53535'', ResolvConf = [], Exchanger = broken_Exchange\<rparr>
          www_example_com 0)
     = Inr (None, 500, Some (errorString ''dns: bad rcode''))
   \<and> fst (ProxyBackend_Query toy_Unpack toy_Pack
          \<lparr>Servers = [''127.0.0.1''], Port = ''53535'', ResolvConf = [], Exchanger = toy_Exchange\<rparr>
          www_example_com 0)
     = Inr (Some www_example_com, 200, None)"
  using ProxyBackend_Query_results [of toy_Unpack "''invalid''" toy_Pack
          "\<lparr>Servers = [''127.0.0.1''], Port = ''53535'', ResolvConf = [], Exchanger = toy_Exchange\<rparr>" 0]
        ProxyBackend_Query_results [of toy_Unpack www_example_com toy_Pack
          "\<lparr>Servers = [''192.0.2.53''], Port = ''53'', ResolvConf = [], Exchanger = toy_Exchange\<rparr>" 0]
        ProxyBackend_Query_results [of toy_Unpack www_example_com toy_Pack
          "\<lparr>Servers = [''127.0.0.1''], Port = ''53535'', ResolvConf = [], Exchanger = broken_Exchange\<rparr>" 0]
        ProxyBackend_Query_results [of toy_Unpack www_example_com toy_Pack
          "\<lparr>Servers = [''127.0.0.1''], Port = ''53535'', ResolvConf = [], Exchanger = toy_Exchange\<rparr>" 0]
  by (simp add: toy_Unpack_def toy_Pack_def toy_Exchange_def broken_Exchange_def
        length_www_example_com JoinHostPort_localhost JoinHostPort_other)

text \<open>
  C7 (as stated). The claim that every call of \<open>Query\<close> invokes the exchanger
  exactly once fails: bytes that do not unpack end the call before the exchange, and the
  exchanger is not invoked at all.
\<close>

theorem Exchange_calls_counterexample:
  "snd (snd (ProxyBackend_Query toy_Unpack toy_Pack
          \<lparr>Servers = [''127.0.0.1''], Port = ''53535'', ResolvConf = [],
           Exchanger = traced toy_Exchange\<rparr> ''invalid'' (0, []))) = []
   \<and> length (snd (snd (ProxyBackend_Query toy_Unpack toy_Pack
          \<lparr>Servers = [''127.0.0.1''], Port = ''53535'', ResolvConf = [],
           Exchanger = traced toy_Exchange\<rparr> ''invalid'' (0, [])))) \<noteq> 1"
  by (simp add: ProxyBackend_Query_def toy_Unpack_def)

text \<open>
  C7 (amended). A call of \<open>Query\<close> whose bytes unpack, on a backend with at least one
  server, invokes the exchanger exactly once, with the unpacked query and the address
  that joins the first server with the port; a call whose bytes do not unpack, or on a
  backend without servers, does not invoke it. So the exchanger is invoked at most once
  per call, and never with a server other than the first.
\<close>

theorem ProxyBackend_Query_exchange_calls:
  assumes "Exchanger pb = traced ex"
  shows "(\<forall>err. Unpack qdata = Inl err \<longrightarrow>
            snd (snd (ProxyBackend_Query Unpack Pack pb qdata (net, calls))) = calls)
       \<and> (\<forall>m server others. Unpack qdata = Inr m \<and> Servers pb = server # others \<longrightarrow>
            snd (snd (ProxyBackend_Query Unpack Pack pb qdata (net, calls)))
              = calls @ [(m, JoinHostPort server (Port pb))])
       \<and> (\<forall>m. Unpack qdata = Inr m \<and> Servers pb = [] \<longrightarrow>
            snd (snd (ProxyBackend_Query Unpack Pack pb qdata (net, calls))) = calls)"
  using assms
  by (auto simp add: ProxyBackend_Query_def traced_def split: prod.split sum.split)

theorem ProxyBackend_Query_exchange_calls_witness:
  "snd (snd (ProxyBackend_Query toy_Unpack toy_Pack
          \<lparr>Servers = [''127.0.0.1'', ''192.0.2.53''], Port = ''53535'', ResolvConf = [],
           Exchanger = traced toy_Exchange\<rparr> ''invalid'' (0, []))) = []
   \<and> snd (snd (ProxyBackend_Query toy_Unpack toy_Pack
          \<lparr>Servers = [''127.0.0.1'', ''192.0.2.53''], Port = ''53535'', ResolvConf = [],
           Exchanger = traced toy_Exchange\<rparr> www_example_com (0, [])))
       = [(www_example_com, ''127.0.0.1:53535'')]
   \<and> snd (snd (ProxyBackend_Query toy_Unpack toy_Pack
          \<lparr>Servers = [''192.0.2.53'', ''127.0.0.1''], Port = ''53'', ResolvConf = [],
           Exchanger = traced toy_Exchange\<rparr> www_example_com (0, [])))
       = [(www_example_com, ''192.0.2.53:53'')]
   \<and> snd (snd (ProxyBackend_Query toy_Unpack toy_Pack
          \<lparr>Servers = [], Port = ''53'', ResolvConf = [],
           Exchanger = traced toy_Exchange\<rparr> www_example_com (0, []))) = []"
  using ProxyBackend_Query_exchange_calls [of
          "\<lparr>Servers = [''127.0.0.1'', ''192.0.2.53''], Port = ''53535'', ResolvConf = [],
            Exchanger = traced toy_Exchange\<rparr>" toy_Exchange toy_Unpack "''invalid''" toy_Pack 0 "[]"]
        ProxyBackend_Query_exchange_calls [of
          "\<lparr>Servers = [''127.0.0.1'', ''192.0.2.53''], Port = ''53535'', ResolvConf = [],
            Exchanger = traced toy_Exchange\<rparr>" toy_Exchange toy_Unpack www_example_com toy_Pack 0 "[]"]
        ProxyBackend_Query_exchange_calls [of
          "\<lparr>Servers = [''192.0.2.53'', ''127.0.0.1''], Port = ''53'', ResolvConf = [],
            Exchanger = traced toy_Exchange\<rparr>" toy_Exchange toy_Unpack www_example_com toy_Pack 0 "[]"]
        ProxyBackend_Query_exchange_calls [of
          "\<lparr>Servers = [], Port = ''53'', ResolvConf = [],
            Exchanger = traced toy_Exchange\<rparr>" toy_Exchange toy_Unpack www_example_com toy_Pack 0 "[]"]
  by (simp add: toy_Unpack_def length_www_example_com JoinHostPort_localhost JoinHostPort_other)

text \<open>
  C8 (as stated). The claim that an empty server list counts as unspecified, and that
  every constructed backend has a non-empty server list, fails: \<open>NewProxy\<close> tests
  \<open>servers == nil\<close>, so an empty list that is not nil is kept as it is and the
  configuration file is not read.
\<close>

theorem NewProxy_empty_servers_counterexample:
  "NewProxy toy_ClientConfigFromFile toy_Exchange (Some []) [] [] None
     = Inr \<lparr>Servers = [], Port = ''53'', ResolvConf = [], Exchanger = toy_Exchange\<rparr>"
  by (simp add: NewProxy_def)

text \<open>
  C8 (amended). When \<open>servers\<close> is nil, \<open>NewProxy\<close> reads the server list from the
  configuration file at \<open>resolvconf\<close>, or at \<open>/etc/resolv.conf\<close> when that path is
  empty; a failure to read it is returned as the error, with no backend. A list that is
  not nil, empty or not, is kept as given. An empty port becomes \<open>53\<close> and a nil
  exchanger the default client. The server list of the backend is the list read or
  given, so it is non-empty exactly when that list is.
\<close>

theorem NewProxy_defaults:
  "(\<forall>err. servers = None
          \<and> ClientConfigFromFile (if resolvconf = [] then ''/etc/resolv.conf'' else resolvconf)
              = Inl err \<longrightarrow>
       NewProxy ClientConfigFromFile dns_Client servers port resolvconf exchanger = Inl err)
   \<and> (\<forall>found. servers = None
          \<and> ClientConfigFromFile (if resolvconf = [] then ''/etc/resolv.conf'' else resolvconf)
              = Inr found \<longrightarrow>
       NewProxy ClientConfigFromFile dns_Client servers port resolvconf exchanger
         = Inr \<lparr>Servers = found, Port = (if port = [] then ''53'' else port), ResolvConf = [],
                Exchanger = (case exchanger of None \<Rightarrow> dns_Client | Some given \<Rightarrow> given)\<rparr>)
   \<and> (\<forall>given. servers = Some given \<longrightarrow>
       NewProxy ClientConfigFromFile dns_Client servers port resolvconf exchanger
         = Inr \<lparr>Servers = given, Port = (if port = [] then ''53'' else port), ResolvConf = [],
                Exchanger = (case exchanger of None \<Rightarrow> dns_Client | Some given \<Rightarrow> given)\<rparr>)"
  by (simp add: NewProxy_def Let_def)

theorem NewProxy_defaults_witness:
  "NewProxy toy_ClientConfigFromFile toy_Exchange None [] ''/nonexistent-resolv.conf'' None
     = Inl (errorString ''open /nonexistent-resolv.conf: no such file or directory'')
   \<and> NewProxy toy_ClientConfigFromFile toy_Exchange None [] [] None
     = Inr \<lparr>Servers = [''192.0.2.53''], Port = ''53'', ResolvConf = [], Exchanger = toy_Exchange\<rparr>
   \<and> NewProxy toy_ClientConfigFromFile toy_Exchange (Some [''127.0.0.1'']) ''53535'' []
        (Some broken_Exchange)
     = Inr \<lparr>Servers = [''127.0.0.1''], Port = ''53535'', ResolvConf = [],
            Exchanger = broken_Exchange\<rparr>"
  using NewProxy_defaults [of None toy_ClientConfigFromFile "''/nonexistent-resolv.conf''"
          toy_Exchange "[]" None]
        NewProxy_defaults [of None toy_ClientConfigFromFile "[]" toy_Exchange "[]" None]
        NewProxy_defaults [of "Some [''127.0.0.1'']" toy_ClientConfigFromFile "[]" toy_Exchange
          "''53535''" "Some broken_Exchange"]
  by (simp add: toy_ClientConfigFromFile_def)

section \<open>GET and POST agree; the response is a function of the request\<close>

lemma EncodeToString_www_example_com:
  "EncodeToString www_example_com = ''AAABAAABAAAAAAAAA3d3dwdleGFtcGxlA2NvbQAAAQAB''"
  by (simp add: www_example_com_def encodeURL_def Let_def)

text \<open>
  C9 (as stated). The claim that for every query the GET request with its encoding and
  the POST request with its bytes have the same outcome fails beyond the limit on the
  body: for a query of 8193 bytes the GET request reaches the backend and is answered
  with status 200, the POST request is answered with status 413.
\<close>

theorem GET_POST_round_trip_counterexample:
  "Code (fst (GetRequest_Handle
       (GET_request [(''dns'', EncodeToString (zeros 8193))] echo_DB))) = 200
   \<and> Body (fst (GetRequest_Handle
       (GET_request [(''dns'', EncodeToString (zeros 8193))] echo_DB))) = zeros 8193
   \<and> Code (fst (PostRequest_Handle
       (POST_request [] ''application/dns-udpwireformat'' (Reader (zeros 8193) None) echo_DB))) = 413"
proof -
  have ne: "EncodeToString (zeros 8193) \<noteq> []"
    by (simp add: EncodeToString_empty zeros_Nil)
  have w: "\<not> wroteHeader (NewRecorder\<lparr>HeaderMap := h\<rparr>)" "Body (NewRecorder\<lparr>HeaderMap := h\<rparr>) = []"
    for h by (simp_all add: NewRecorder_def)
  have get: "GetRequest_Handle (GET_request [(''dns'', EncodeToString (zeros 8193))] echo_DB)
      = (Write (NewRecorder\<lparr>HeaderMap := Header_Set (HeaderMap NewRecorder) ''Content-Type'' mime\<rparr>)
           (zeros 8193), None)"
    by (simp add: GetRequest_Handle_def GET_request_def NewRequest_def URL_Query_def
          param_values_def Let_def ne DecodeString_EncodeToString echo_DB_def bytes_of_def)
  have post: "Code (fst (PostRequest_Handle
       (POST_request [] ''application/dns-udpwireformat'' (Reader (zeros 8193) None) echo_DB))) = 413"
    by (simp add: PostRequest_Handle_def POST_request_def NewRequest_def URL_Query_def
          param_values_def Let_def Header_Get_def mime_def MaxBytesReader_ReadAll length_zeros
          http_Error_Code w)
  show ?thesis
    unfolding get using post by (simp add: Write_Code Write_Body w)
qed

text \<open>
  C9 (amended). For every query of 1 to 8192 bytes, a GET request whose single \<open>dns\<close>
  parameter is the unpadded base64url encoding of the query and a POST request that
  carries the bytes of the query with the right \<open>Content-Type\<close> and no \<open>dns\<close>
  parameter, on the same backend and the same response writer, give the same response
  and the same error: the one that the backend's outcome on exactly the bytes of the
  query determines.
\<close>

theorem GET_POST_round_trip:
  assumes "q \<noteq> []" and "length q \<le> 8192"
    and "param_values (URL (R get)) ''dns'' = [EncodeToString q]"
    and "param_values (URL (R post)) ''dns'' = []"
    and "Header_Get (Header (R post)) ''Content-Type'' = ''application/dns-udpwireformat''"
    and "ReqBody (R post) = Reader q None"
    and "DB get = DB post" and "W get = W post"
  shows "GetRequest_Handle get = PostRequest_Handle post
       \<and> GetRequest_Handle get =
           (case DB get q of
              (rdata, httpStatus, Some err) \<Rightarrow>
                (http_Error ((W get)\<lparr>HeaderMap := Header_Set (HeaderMap (W get)) ''Content-Type'' mime\<rparr>)
                   (http_StatusText httpStatus) httpStatus, Some err)
            | (rdata, httpStatus, None) \<Rightarrow>
                (Write ((W get)\<lparr>HeaderMap := Header_Set (HeaderMap (W get)) ''Content-Type'' mime\<rparr>)
                   (bytes_of rdata), None))"
proof -
  have ne: "EncodeToString q \<noteq> []" using assms(1) by (simp add: EncodeToString_empty)
  note g = GetRequest_Handle_query [OF assms(3) ne DecodeString_EncodeToString]
  have p: "PostRequest_Handle post =
       (case DB post q of
          (rdata, httpStatus, Some err) \<Rightarrow>
            (http_Error ((W post)\<lparr>HeaderMap := Header_Set (HeaderMap (W post)) ''Content-Type'' mime\<rparr>)
               (http_StatusText httpStatus) httpStatus, Some err)
        | (rdata, httpStatus, None) \<Rightarrow>
            (Write ((W post)\<lparr>HeaderMap := Header_Set (HeaderMap (W post)) ''Content-Type'' mime\<rparr>)
               (bytes_of rdata), None))"
    using assms by (intro PostRequest_Handle_query) (simp_all add: mime_text)
  show ?thesis unfolding g p assms(7,8) by simp
qed

theorem GET_POST_round_trip_witness:
  "www_example_com \<noteq> [] \<and> length www_example_com \<le> 8192
   \<and> GetRequest_Handle (GET_request [(''dns'', EncodeToString www_example_com)] echo_DB)
       = PostRequest_Handle (POST_request [] ''application/dns-udpwireformat''
           (Reader www_example_com None) echo_DB)
   \<and> Code (fst (GetRequest_Handle
         (GET_request [(''dns'', EncodeToString www_example_com)] echo_DB))) = 200
   \<and> Body (fst (GetRequest_Handle
         (GET_request [(''dns'', EncodeToString www_example_com)] echo_DB))) = www_example_com"
proof -
  let ?get = "GET_request [(''dns'', EncodeToString www_example_com)] echo_DB"
  let ?post = "POST_request [] ''application/dns-udpwireformat'' (Reader www_example_com None) echo_DB"
  have w: "\<not> wroteHeader (NewRecorder\<lparr>HeaderMap := h\<rparr>)" "Body (NewRecorder\<lparr>HeaderMap := h\<rparr>) = []"
    for h by (simp_all add: NewRecorder_def)
  have len: "length www_example_com \<le> 8192" by (simp add: length_www_example_com)
  have g: "param_values (URL (R ?get)) ''dns'' = [EncodeToString www_example_com]"
    by (simp add: GET_request_def NewRequest_def param_values_def)
  have p: "param_values (URL (R ?post)) ''dns'' = []"
    "Header_Get (Header (R ?post)) ''Content-Type'' = ''application/dns-udpwireformat''"
    "ReqBody (R ?post) = Reader www_example_com None"
    by (simp_all add: POST_request_def NewRequest_def param_values_def Header_Get_def)
  have same: "DB ?get = DB ?post" "W ?get = W ?post"
    by (simp_all add: GET_request_def POST_request_def)
  note rt = GET_POST_round_trip [OF www_example_com_nonempty len g p same]
  have "Code (fst (GetRequest_Handle ?get)) = 200"
    and "Body (fst (GetRequest_Handle ?get)) = www_example_com"
    unfolding rt [THEN conjunct2]
    by (simp_all add: GET_request_def echo_DB_def bytes_of_def Write_Code Write_Body w)
  with rt www_example_com_nonempty len show ?thesis by blast
qed

lemma GetRequest_Handle_RemoteAddr:
  "GetRequest_Handle \<lparr>W = w, R = r\<lparr>RemoteAddr := a\<rparr>, DB = db\<rparr>
     = GetRequest_Handle \<lparr>W = w, R = r, DB = db\<rparr>"
  by (simp add: GetRequest_Handle_def Let_def split: option.split sum.split)

lemma PostRequest_Handle_RemoteAddr:
  "PostRequest_Handle \<lparr>W = w, R = r\<lparr>RemoteAddr := a\<rparr>, DB = db\<rparr>
     = PostRequest_Handle \<lparr>W = w, R = r, DB = db\<rparr>"
  by (simp add: PostRequest_Handle_def Let_def split: option.split prod.split)

text \<open>
  C10. With a backend that is a function of its input bytes, the response that the handler
  of \<open>HandleRequest\<close> writes (status, headers and body of the response writer) is the
  same in any two runs on the same request and response writer: it does not depend on
  the logger or on what the logger holds, nor on the remote address that is only logged.
\<close>

theorem HandleRequest_response_deterministic:
  "fst (HandleRequest db lg w (r\<lparr>RemoteAddr := a\<rparr>)) = fst (HandleRequest db lg' w r)"
  by (simp add: HandleRequest_def GetRequest_Handle_RemoteAddr PostRequest_Handle_RemoteAddr
        split: prod.split)

end
